theory Spec2Isabelle
  imports Main "HOL-Library.Word"
begin

unbundle bit_operations_syntax

section \<open>Data model\<close>

text \<open>
  Go's \<open>net.IP\<close> is a byte slice. The \<open>nil\<close> slice is the empty list here: the
  source only ever tests \<open>ip == nil\<close> on the result of \<open>net.ParseIP\<close>, which is
  either \<open>nil\<close> or a slice of 16 bytes. Go strings are byte sequences, as \<open>string\<close> is.
\<close>

type_synonym byte = "8 word"
type_synonym IP = "byte list"
type_synonym error = string

text \<open>
  \<open>http.Header\<close> maps a key to its list of values. \<open>Get\<close> returns the first value of
  the key, or the empty string; \<open>Set\<close> replaces the values of the key by one value.
  Keys are the names the source passes to \<open>Get\<close> and \<open>Set\<close>.
\<close>

type_synonym Header = "string \<rightharpoonup> string list"

definition Header_Get :: "Header \<Rightarrow> string \<Rightarrow> string" where
  "Header_Get h k = (case h k of None \<Rightarrow> [] | Some [] \<Rightarrow> [] | Some (v # vs) \<Rightarrow> v)"

definition Header_Set :: "Header \<Rightarrow> string \<Rightarrow> string \<Rightarrow> Header" where
  "Header_Set h k v = h(k \<mapsto> [v])"

record Request =
  Header :: Header
  RemoteAddr :: string

text \<open>
  The functions of Go's library and of the GeoIP2 library that the source calls and whose
  code is not part of the repository are parameters of the model:
  \<open>net.SplitHostPort\<close>, \<open>net.ParseIP\<close>, the Unicode part of \<open>strings.EqualFold\<close>,
  \<open>filepath.Abs\<close> and \<open>geoip2.Open\<close>. A reader is its lookup \<open>Country\<close>, reduced to
  the field \<open>Country.IsoCode\<close> the source reads.
\<close>

type_synonym Reader = "IP \<Rightarrow> error + string"

record env =
  SplitHostPort :: "string \<Rightarrow> error + (string \<times> string)"
  ParseIP :: "string \<Rightarrow> IP"
  foldUnicode :: "string \<Rightarrow> string \<Rightarrow> bool"
  Abs :: "string \<Rightarrow> error + string"
  Open :: "string \<Rightarrow> error + Reader"

text \<open>
  The middleware's fields. Its \<open>next\<close> handler and its \<open>logger\<close> are collaborators:
  what the middleware does to them is recorded as the calls it makes.
\<close>

record GeoIPMiddleware =
  reader :: Reader
  allowCountries :: "string list"
  blockCountries :: "string list"

text \<open>
  The calls \<open>ServeHTTP\<close> makes to its collaborators, in the order it makes them: the
  two parsing functions with their argument, the country lookup, the logger, the response
  written by \<open>http.Error\<close> (message and status), and the downstream handler with the
  request it receives.
\<close>

datatype call =
    NetSplitHostPort string
  | NetParseIP string
  | ReaderCountry IP
  | LoggerInfo string string string "string list"
  | HttpError string nat
  | NextServeHTTP Request

definition StatusForbidden :: nat where
  "StatusForbidden = 403"

section \<open>Go's \<open>net.IP\<close> methods\<close>

definition IPv6loopback :: IP where
  "IPv6loopback = [0, 0, 0, 0, 0, 0, 0, 0, 0, 0, 0, 0, 0, 0, 0, 1]"

definition v4InV6Prefix :: IP where
  "v4InV6Prefix = [0, 0, 0, 0, 0, 0, 0, 0, 0, 0, 0xff, 0xff]"

text \<open>\<open>ip.To4()\<close>: the 4-byte form of an IPv4 address, \<open>nil\<close> for any other slice.\<close>

definition To4 :: "IP \<Rightarrow> IP" where
  "To4 ip =
     (if length ip = 4 then ip
      else if length ip = 16 \<and> list_all (\<lambda>b. b = 0) (take 10 ip) \<and> ip ! 10 = 0xff \<and> ip ! 11 = 0xff
      then drop 12 ip
      else [])"

text \<open>\<open>ip.Equal(x)\<close>: an IPv4 address equals its 16-byte form.\<close>

definition Equal :: "IP \<Rightarrow> IP \<Rightarrow> bool" where
  "Equal ip x =
     (if length ip = length x then ip = x
      else if length ip = 4 \<and> length x = 16 then take 12 x = v4InV6Prefix \<and> ip = drop 12 x
      else if length ip = 16 \<and> length x = 4 then take 12 ip = v4InV6Prefix \<and> drop 12 ip = x
      else False)"

definition IsLoopback :: "IP \<Rightarrow> bool" where
  "IsLoopback ip = (let ip4 = To4 ip in if ip4 \<noteq> [] then ip4 ! 0 = 127 else Equal ip IPv6loopback)"

section \<open>The address classifier\<close>

text \<open>\<open>isLocalOrInternalIP\<close>, check by check in the source's order.\<close>

definition isLocalOrInternalIP :: "IP \<Rightarrow> bool" where
  "isLocalOrInternalIP ip =
     (if ip = [] then False
      else if IsLoopback ip then True
      else if Equal ip IPv6loopback then True
      else if (let ipv4 = To4 ip in
                 ipv4 \<noteq> [] \<and>
                 (ipv4 ! 0 = 10 \<or>
                  (ipv4 ! 0 = 172 \<and> ipv4 ! 1 \<ge> 16 \<and> ipv4 ! 1 \<le> 31) \<or>
                  (ipv4 ! 0 = 192 \<and> ipv4 ! 1 = 168) \<or>
                  (ipv4 ! 0 = 169 \<and> ipv4 ! 1 = 254))) then True
      else if length ip = 16 \<and> (ip ! 0 AND 0xfe) = 0xfc then True
      else if length ip = 16 \<and> ip ! 0 = 0xfe \<and> (ip ! 1 AND 0xc0) = 0x80 then True
      else False)"

text \<open>
  The classification as the specification words it: address blocks in CIDR notation. An
  address of \<open>w\<close> bits is in the block \<open>base/n\<close> when its \<open>n\<close> leading bits are those
  of \<open>base\<close>. \<open>ip_value\<close> reads a byte sequence as a big-endian number.
\<close>

definition ip_value :: "IP \<Rightarrow> nat" where
  "ip_value ip = foldl (\<lambda>a b. a * 256 + unat b) 0 ip"

definition in_block :: "nat \<Rightarrow> nat \<Rightarrow> nat \<Rightarrow> nat \<Rightarrow> bool" where
  "in_block w addr base n = (addr div 2 ^ (w - n) = base div 2 ^ (w - n))"

definition dotted :: "nat \<Rightarrow> nat \<Rightarrow> nat \<Rightarrow> nat \<Rightarrow> nat" where
  "dotted a b c d = ((a * 256 + b) * 256 + c) * 256 + d"

text \<open>The first addresses of the IPv6 blocks \<open>fc00::/7\<close> and \<open>fe80::/10\<close>.\<close>

definition fc00 :: nat where
  "fc00 = 0xfc00 * 2 ^ 112"

definition fe80 :: nat where
  "fe80 = 0xfe80 * 2 ^ 112"

datatype AddressClass = Local | Private | Public

definition classify :: "IP \<Rightarrow> AddressClass" where
  "classify ip =
     (let v4 = To4 ip; a = ip_value v4; v6 = (length ip = 16); b = ip_value ip in
      if (v4 \<noteq> [] \<and> in_block 32 a (dotted 127 0 0 0) 8) \<or> ip = IPv6loopback then Local
      else if v4 \<noteq> [] \<and>
              (in_block 32 a (dotted 10 0 0 0) 8 \<or> in_block 32 a (dotted 172 16 0 0) 12 \<or>
               in_block 32 a (dotted 192 168 0 0) 16 \<or> in_block 32 a (dotted 169 254 0 0) 16)
      then Private
      else if v6 \<and> in_block 128 b fc00 7 then Private
      else if v6 \<and> in_block 128 b fe80 10 then Private
      else Public)"

section \<open>Case-insensitive comparison\<close>

text \<open>
  Go's \<open>strings.EqualFold\<close>, byte by byte while both bytes are ASCII: equal bytes match,
  and so do an upper-case letter \<open>A\<close>..\<open>Z\<close> (65..90) and its lower-case form (32
  above). When the shorter string is used up, the strings match if they have the same
  length. At the first byte that is not ASCII the rest of both strings goes to the Unicode
  comparison, a parameter.
\<close>

fun EqualFold :: "env \<Rightarrow> string \<Rightarrow> string \<Rightarrow> bool" where
  "EqualFold e [] t = (t = [])"
| "EqualFold e (x # xs) [] = False"
| "EqualFold e (x # xs) (y # ys) =
     (if (of_char x :: nat) \<ge> 128 \<or> (of_char y :: nat) \<ge> 128 then foldUnicode e (x # xs) (y # ys)
      else if y = x then EqualFold e xs ys
      else if 65 \<le> min (of_char x :: nat) (of_char y) \<and> min (of_char x :: nat) (of_char y) \<le> 90 \<and>
              max (of_char x :: nat) (of_char y) = min (of_char x) (of_char y) + 32
      then EqualFold e xs ys
      else False)"

section \<open>The country filter\<close>

text \<open>
  The loop over \<open>allowCountries\<close>: \<open>allowed\<close> becomes true at the first member that
  matches. The loop over \<open>blockCountries\<close>: true when some member matches, where the
  source logs, answers and returns.
\<close>

fun allowed :: "env \<Rightarrow> string \<Rightarrow> string list \<Rightarrow> bool" where
  "allowed e countryCode [] = False"
| "allowed e countryCode (allowedCountry # rest) =
     (if EqualFold e countryCode allowedCountry then True else allowed e countryCode rest)"

fun blocked :: "env \<Rightarrow> string \<Rightarrow> string list \<Rightarrow> bool" where
  "blocked e countryCode [] = False"
| "blocked e countryCode (blockedCountry # rest) =
     (if EqualFold e countryCode blockedCountry then True else blocked e countryCode rest)"

text \<open>
  \<open>ServeHTTP\<close>, as the list of the calls it makes. \<open>annotate\<close> is the last step
  before the downstream handler is called: the header \<open>X-GeoIP-Country\<close> is set when
  the code is not empty.
\<close>

definition annotate :: "Request \<Rightarrow> string \<Rightarrow> Request" where
  "annotate r countryCode =
     (if countryCode \<noteq> [] then r\<lparr>Header := Header_Set (Header r) ''X-GeoIP-Country'' countryCode\<rparr>
      else r)"

definition ServeHTTP :: "env \<Rightarrow> GeoIPMiddleware \<Rightarrow> Request \<Rightarrow> call list" where
  "ServeHTTP e m r =
     (let remoteAddr = Header_Get (Header r) ''X-Forwarded-For'';
          remoteAddr = (if remoteAddr = [] then RemoteAddr r else remoteAddr);
          host = (case SplitHostPort e remoteAddr of Inr (h, port) \<Rightarrow> h | Inl err \<Rightarrow> remoteAddr);
          ip = ParseIP e host
      in [NetSplitHostPort remoteAddr, NetParseIP host] @
         (if ip \<noteq> [] then
            if isLocalOrInternalIP ip then [NextServeHTTP r]
            else ReaderCountry ip #
              (case reader m ip of
                 Inr countryCode \<Rightarrow>
                   if allowCountries m \<noteq> [] then
                     if \<not> allowed e countryCode (allowCountries m) then
                       [LoggerInfo ''Request blocked - country not in allow list''
                          countryCode host (allowCountries m),
                        HttpError ''Access denied'' StatusForbidden]
                     else [NextServeHTTP (annotate r countryCode)]
                   else if blockCountries m \<noteq> [] then
                     if blocked e countryCode (blockCountries m) then
                       [LoggerInfo ''Request blocked - country in block list''
                          countryCode host (blockCountries m),
                        HttpError ''Access denied'' StatusForbidden]
                     else [NextServeHTTP (annotate r countryCode)]
                   else [NextServeHTTP (annotate r countryCode)]
               | Inl err \<Rightarrow> [NextServeHTTP r])
          else [NextServeHTTP r]))"

text \<open>
  The words of the specification about a request. The address text the filter works on:
  the forwarding header when it is present and not empty, the peer address otherwise,
  without its port when \<open>SplitHostPort\<close> finds one. What a list of calls says: the
  request was rejected (the fixed response and no downstream call), or passed on as \<open>r\<close>
  (one downstream request and no response written by the filter).
\<close>

definition chosenAddr :: "Request \<Rightarrow> string" where
  "chosenAddr r =
     (if Header_Get (Header r) ''X-Forwarded-For'' \<noteq> [] then Header_Get (Header r) ''X-Forwarded-For''
      else RemoteAddr r)"

definition stripPort :: "env \<Rightarrow> string \<Rightarrow> string" where
  "stripPort e a = (case SplitHostPort e a of Inr (h, port) \<Rightarrow> h | Inl err \<Rightarrow> a)"

definition clientIP :: "env \<Rightarrow> Request \<Rightarrow> IP" where
  "clientIP e r = ParseIP e (stripPort e (chosenAddr r))"

definition is_response :: "call \<Rightarrow> bool" where
  "is_response c = (case c of HttpError msg st \<Rightarrow> True | _ \<Rightarrow> False)"

definition is_next :: "call \<Rightarrow> bool" where
  "is_next c = (case c of NextServeHTTP r \<Rightarrow> True | _ \<Rightarrow> False)"

definition is_lookup :: "call \<Rightarrow> bool" where
  "is_lookup c = (case c of ReaderCountry ip \<Rightarrow> True | _ \<Rightarrow> False)"

definition rejected :: "call list \<Rightarrow> bool" where
  "rejected cs = (filter is_response cs = [HttpError ''Access denied'' 403] \<and> filter is_next cs = [])"

definition passed :: "call list \<Rightarrow> Request \<Rightarrow> bool" where
  "passed cs r = (filter is_next cs = [NextServeHTTP r] \<and> filter is_response cs = [])"

section \<open>Finding the database\<close>

definition possiblePaths :: "string list" where
  "possiblePaths =
     [''./GeoLite2-Country.mmdb'', ''./data/GeoLite2-Country.mmdb'',
      ''./storage/GeoLite2-Country.mmdb'', ''./fixtures/GeoLite2-Country.mmdb'']"

fun findLoop :: "env \<Rightarrow> string list \<Rightarrow> string" where
  "findLoop e [] = []"
| "findLoop e (path # rest) =
     (case Abs e path of
        Inr absPath \<Rightarrow> if absPath \<noteq> [] then absPath else findLoop e rest
      | Inl err \<Rightarrow> findLoop e rest)"

definition FindGeoIP2Database :: "env \<Rightarrow> string" where
  "FindGeoIP2Database e = findLoop e possiblePaths"

section \<open>Building the chain\<close>

text \<open>
  The options. The two lists are \<open>allowCountries\<close> and \<open>blockCountries\<close> in the
  source; the middleware's fields have these names already. Go's \<open>int\<close> is \<open>int\<close>
  here: the source only compares \<open>maxRequestBody\<close> with 0 and passes it on.
\<close>

record HandlerOptions =
  badGatewayPage :: string
  cache :: nat
  maxCacheableResponseBody :: int
  maxRequestBody :: int
  targetUrl :: string
  xSendfileEnabled :: bool
  gzipCompressionEnabled :: bool
  forwardHeaders :: bool
  logRequests :: bool
  geoIP2Enabled :: bool
  optAllowCountries :: "string list"
  optBlockCountries :: "string list"

text \<open>
  A handler is the nesting of the constructors \<open>NewHandler\<close> applies, each with the
  arguments it receives; the handler it wraps is the last argument, first for
  \<open>MaxBytesHandler\<close> as in Go.
\<close>

datatype handler =
    NewProxyHandler string string bool
  | NewCacheHandler nat int handler
  | NewSendfileHandler bool handler
  | NewRequestStartMiddleware handler
  | GzipHandler handler
  | MaxBytesHandler handler int
  | NewGeoIPMiddleware GeoIPMiddleware handler
  | NewLoggingMiddleware handler

datatype diagnostic = Warn string string error | Info string

definition NewHandler :: "env \<Rightarrow> HandlerOptions \<Rightarrow> handler \<times> diagnostic list" where
  "NewHandler e options =
     (let handler = NewProxyHandler (targetUrl options) (badGatewayPage options) (forwardHeaders options);
          handler = NewCacheHandler (cache options) (maxCacheableResponseBody options) handler;
          handler = NewSendfileHandler (xSendfileEnabled options) handler;
          handler = NewRequestStartMiddleware handler;
          handler = (if gzipCompressionEnabled options then GzipHandler handler else handler);
          handler = (if maxRequestBody options > 0
                     then MaxBytesHandler handler (maxRequestBody options) else handler);
          (handler, log) =
            (if geoIP2Enabled options then
               (let dbPath = FindGeoIP2Database e in
                case Open e dbPath of
                  Inl err \<Rightarrow>
                    (handler,
                     [Warn ''Failed to open GeoIP2 database. NOT loading the GeoIP2 middleware for IP filtering.''
                        dbPath err])
                | Inr rd \<Rightarrow>
                    (NewGeoIPMiddleware
                       \<lparr>reader = rd, allowCountries = optAllowCountries options,
                        blockCountries = optBlockCountries options\<rparr> handler,
                     [Info ''Loaded GeoIP2 country database & GeoIP2 middleware for IP filtering.'']))
             else (handler, []));
          handler = (if logRequests options then NewLoggingMiddleware handler else handler)
      in (handler, log))"

text \<open>The layers of a handler, outermost first.\<close>

datatype layer =
  Proxy | Caching | Sendfile | RequestStart | Compression | BodyLimit | CountryFilter | Logging

fun layers :: "handler \<Rightarrow> layer list" where
  "layers (NewProxyHandler u p f) = [Proxy]"
| "layers (NewCacheHandler c n h) = Caching # layers h"
| "layers (NewSendfileHandler b h) = Sendfile # layers h"
| "layers (NewRequestStartMiddleware h) = RequestStart # layers h"
| "layers (GzipHandler h) = Compression # layers h"
| "layers (MaxBytesHandler h n) = BodyLimit # layers h"
| "layers (NewGeoIPMiddleware m h) = CountryFilter # layers h"
| "layers (NewLoggingMiddleware h) = Logging # layers h"

text \<open>
  The order of the layers as the specification words it, outermost first, for the layers
  that are enabled: the request-start instrumentation, logging, the country filter, the
  body-size limit, compression, the file-serving acceleration, caching, the proxy.
\<close>

definition claimed_layers :: "bool \<Rightarrow> bool \<Rightarrow> bool \<Rightarrow> bool \<Rightarrow> bool \<Rightarrow> layer list" where
  "claimed_layers lg cf bl cp sf =
     [RequestStart] @ (if lg then [Logging] else []) @
     (if cf then [CountryFilter] else []) @ (if bl then [BodyLimit] else []) @
     (if cp then [Compression] else []) @ (if sf then [Sendfile] else []) @
     [Caching, Proxy]"

text \<open>
  Go's \<open>filepath.Abs\<close> returns an absolute path when it succeeds, and an absolute path
  is not empty.
\<close>

definition resolves_absolute :: "env \<Rightarrow> bool" where
  "resolves_absolute e = (\<forall>p a. Abs e p = Inr a \<longrightarrow> a \<noteq> [])"

section \<open>Example inputs\<close>

text \<open>
  An environment that answers as Go's library does on the two addresses of the
  specification's examples, a process started in \<open>/rails\<close> without a database file, a
  reader that answers every lookup with one code, and one whose lookups fail.
\<close>

definition ip_203_0_113_1 :: IP where
  "ip_203_0_113_1 = [0, 0, 0, 0, 0, 0, 0, 0, 0, 0, 0xff, 0xff, 203, 0, 113, 1]"

definition ip_10_0_0_5 :: IP where
  "ip_10_0_0_5 = [0, 0, 0, 0, 0, 0, 0, 0, 0, 0, 0xff, 0xff, 10, 0, 0, 5]"

definition example_env :: env where
  "example_env =
     \<lparr>SplitHostPort =
        (\<lambda>a. if a = ''203.0.113.1:54321'' then Inr (''203.0.113.1'', ''54321'')
             else if a = ''10.0.0.5:54321'' then Inr (''10.0.0.5'', ''54321'')
             else Inl ''missing port in address''),
      ParseIP =
        (\<lambda>h. if h = ''203.0.113.1'' then ip_203_0_113_1
             else if h = ''10.0.0.5'' then ip_10_0_0_5
             else []),
      foldUnicode = (\<lambda>s t. False),
      Abs = (\<lambda>p. Inr (''/rails'' @ drop 1 p)),
      Open = (\<lambda>p. Inl ''open: no such file or directory'')\<rparr>"

definition example_request :: "string \<Rightarrow> string \<Rightarrow> Request" where
  "example_request xff remote =
     \<lparr>Header = (if xff = [] then Map.empty else [''X-Forwarded-For'' \<mapsto> [xff]]),
      RemoteAddr = remote\<rparr>"

definition answering :: "string \<Rightarrow> Reader" where
  "answering code = (\<lambda>ip. Inr code)"

definition failing :: Reader where
  "failing = (\<lambda>ip. Inl ''lookup failed'')"

definition example_options :: HandlerOptions where
  "example_options =
     \<lparr>badGatewayPage = ''./public/502.html'', cache = 0, maxCacheableResponseBody = 1048576,
      maxRequestBody = 0, targetUrl = ''http://localhost:3000'', xSendfileEnabled = True,
      gzipCompressionEnabled = False, forwardHeaders = True, logRequests = False,
      geoIP2Enabled = False, optAllowCountries = [], optBlockCountries = []\<rparr>"

section \<open>Bytes and address values\<close>

lemma unat_byte_lt: "unat (b::byte) < 256"
  using unsigned_less[of b, where 'a=nat] by simp

lemma and_Bit0: "(m::nat) AND numeral (Num.Bit0 k) = 2 * ((m div 2) AND numeral k)"
  using and_nat_rec[of m "numeral (Num.Bit0 k)"] by simp

lemma and_127: "(m::nat) AND 127 = m mod 128"
  using take_bit_eq_mask[of 7 m] by (simp add: mask_eq_exp_minus_1 take_bit_eq_mod)

lemma and_3: "(m::nat) AND 3 = m mod 4"
  using take_bit_eq_mask[of 2 m] by (simp add: mask_eq_exp_minus_1 take_bit_eq_mod)

lemma and_fe: "((b::byte) AND 0xfe = 0xfc) \<longleftrightarrow> unat b div 2 = 126"
proof -
  have "(b AND 0xfe = 0xfc) \<longleftrightarrow> unat (b AND 0xfe) = unat (0xfc::byte)"
    by (simp only: word_eq_iff_unsigned[where 'a=nat])
  also have "unat (b AND 0xfe) = unat b AND 254"
    by (simp add: unsigned_and_eq)
  also have "unat b AND 254 = 2 * (unat b div 2)"
    using unat_byte_lt[of b] by (simp add: and_Bit0 and_127)
  finally show ?thesis by simp
qed

lemma and_c0: "((b::byte) AND 0xc0 = 0x80) \<longleftrightarrow> unat b div 64 = 2"
proof -
  have "(b AND 0xc0 = 0x80) \<longleftrightarrow> unat (b AND 0xc0) = unat (0x80::byte)"
    by (simp only: word_eq_iff_unsigned[where 'a=nat])
  also have "unat (b AND 0xc0) = unat b AND 192"
    by (simp add: unsigned_and_eq)
  also have "unat b AND 192 = 64 * (unat b div 64)"
    using unat_byte_lt[of b] by (simp add: and_Bit0 and_3 div_mult2_eq[symmetric])
  finally show ?thesis by simp
qed

lemma byte_eq_numeral: "((b::byte) = numeral k) \<longleftrightarrow> unat b = unat (numeral k :: byte)"
  by (simp only: word_eq_iff_unsigned[where 'a=nat])

lemma foldl_value: "foldl (\<lambda>a b. a * 256 + unat (b::byte)) a bs
       = a * 256 ^ length bs + foldl (\<lambda>a b. a * 256 + unat b) 0 bs"
proof (induction bs arbitrary: a)
  case Nil
  show ?case by simp
next
  case (Cons b bs)
  let ?f = "\<lambda>a (b::byte). a * 256 + unat b"
  have 1: "foldl ?f (a * 256 + unat b) bs = (a * 256 + unat b) * 256 ^ length bs + foldl ?f 0 bs"
    by (rule Cons.IH)
  have 2: "foldl ?f (unat b) bs = unat b * 256 ^ length bs + foldl ?f 0 bs"
    by (rule Cons.IH)
  have "foldl ?f a (b # bs) = foldl ?f (a * 256 + unat b) bs" by simp
  moreover have "foldl ?f 0 (b # bs) = foldl ?f (unat b) bs" by simp
  ultimately show ?case
    by (simp only: 1 2 length_Cons power_Suc) (simp add: algebra_simps)
qed

lemma ip_value_Cons: "ip_value (b # bs) = unat b * 256 ^ length bs + ip_value bs"
  using foldl_value[of "unat b" bs] by (simp add: ip_value_def)

lemma ip_value_Nil: "ip_value [] = 0"
  by (simp add: ip_value_def)

lemma ip_value_bound: "ip_value bs < 256 ^ length bs"
proof (induction bs)
  case Nil
  show ?case by (simp add: ip_value_Nil)
next
  case (Cons b bs)
  have le: "unat b * 256 ^ length bs \<le> 255 * 256 ^ length bs"
    using unat_byte_lt[of b] by simp
  have "256 ^ length (b # bs) = 256 * (256::nat) ^ length bs" by simp
  then show ?case unfolding ip_value_Cons using Cons.IH le by linarith
qed

lemma div_scaled: "r < k \<Longrightarrow> (x * k + r) div (c * k) = x div (c::nat)"
proof -
  assume r: "r < k"
  then have "(x * k + r) div k = x" by simp
  then show ?thesis by (metis div_mult2_eq mult.commute)
qed

lemma len16: "length (ip::IP) = 16 \<Longrightarrow> \<exists>b0 b1 rest. ip = b0 # b1 # rest \<and> length rest = 14"
  by (cases ip; cases "tl ip") auto

lemma v6_ula: 
  assumes "length ip = 16"
  shows "in_block 128 (ip_value ip) fc00 7 \<longleftrightarrow> (ip ! 0 AND 0xfe) = 0xfc"
proof -
  from len16[OF assms] obtain b0 b1 rest where ip: "ip = b0 # b1 # rest" and l: "length rest = 14"
    by blast
  define k :: nat where "k = 256 ^ 15"
  define r where "r = ip_value (b1 # rest)"
  have r: "r < k" using ip_value_bound[of "b1 # rest"] l by (simp add: r_def k_def)
  have v: "ip_value ip = unat b0 * k + r"
    by (simp add: ip ip_value_Cons[of b0] l r_def k_def)
  have p: "(2::nat) ^ (128 - 7) = 2 * k" by (simp add: k_def)
  have b: "fc00 = 252 * k + 0" by (simp add: k_def fc00_def)
  have k0: "0 < k" by (simp add: k_def)
  have "in_block 128 (ip_value ip) fc00 7 \<longleftrightarrow> unat b0 div 2 = 126"
    unfolding in_block_def p v b by (simp only: div_scaled[OF r] div_scaled[OF k0]) simp
  then show ?thesis by (simp add: ip and_fe)
qed

lemma v6_ll:
  assumes "length ip = 16"
  shows "in_block 128 (ip_value ip) fe80 10
         \<longleftrightarrow> ip ! 0 = 0xfe \<and> (ip ! 1 AND 0xc0) = 0x80"
proof -
  from len16[OF assms] obtain b0 b1 rest where ip: "ip = b0 # b1 # rest" and l: "length rest = 14"
    by blast
  define k :: nat where "k = 256 ^ 14"
  define r where "r = ip_value rest"
  define q where "q = unat b1 div 64"
  have r: "r < k" using ip_value_bound[of rest] l by (simp add: r_def k_def)
  have v: "ip_value ip = (unat b0 * 256 + unat b1) * k + r"
    by (simp add: ip ip_value_Cons l r_def k_def algebra_simps)
  have p: "(2::nat) ^ (128 - 10) = 64 * k" by (simp add: k_def)
  have b: "fe80 = 65152 * k + 0" by (simp add: k_def fe80_def)
  have k0: "0 < k" by (simp add: k_def)
  have q: "q < 4" using unat_byte_lt[of b1] by (simp add: q_def)
  have d: "(unat b0 * 256 + unat b1) div 64 = unat b0 * 4 + q"
    by (simp add: q_def)
  have "in_block 128 (ip_value ip) fe80 10
        \<longleftrightarrow> unat b0 * 4 + q = 1018"
    unfolding in_block_def p v b by (simp only: div_scaled[OF r] div_scaled[OF k0] d) simp
  also have "\<dots> \<longleftrightarrow> unat b0 = 254 \<and> q = 2"
    using q by arith
  finally have "in_block 128 (ip_value ip) fe80 10
        \<longleftrightarrow> unat b0 = 254 \<and> unat b1 div 64 = 2" by (simp add: q_def)
  moreover have "unat b0 = 254 \<longleftrightarrow> b0 = 0xfe" by (simp add: byte_eq_numeral)
  ultimately show ?thesis by (simp add: ip and_c0)
qed

lemma len4: "length (ip::IP) = 4 \<Longrightarrow> \<exists>a b c d. ip = [a, b, c, d]"
  by (cases ip; cases "tl ip"; cases "tl (tl ip)"; cases "tl (tl (tl ip))") auto

lemma ip_value4: "ip_value [a, b, c, d] = dotted (unat a) (unat b) (unat c) (unat d)"
  by (simp add: ip_value_def dotted_def)

lemma dotted_split: "dotted a b c d = (a * 256 + b) * 65536 + (c * 256 + d)"
  by (simp add: dotted_def)

lemma block8:
  assumes "b < 256" "c < 256" "d < 256"
  shows "in_block 32 (dotted a b c d) (dotted x 0 0 0) 8 \<longleftrightarrow> a = x"
proof -
  have "dotted a b c d = a * 16777216 + ((b * 256 + c) * 256 + d)"
    by (simp add: dotted_def)
  moreover have "(b * 256 + c) * 256 + d < 16777216" using assms by simp
  ultimately have "dotted a b c d div 16777216 = a" by simp
  moreover have "dotted x 0 0 0 div 16777216 = x" by (simp add: dotted_def)
  ultimately show ?thesis by (simp add: in_block_def)
qed

lemma block16:
  assumes "b < 256" "c < 256" "d < 256" "y < 256"
  shows "in_block 32 (dotted a b c d) (dotted x y 0 0) 16 \<longleftrightarrow> a = x \<and> b = y"
proof -
  have "c * 256 + d < 65536" using assms by simp
  then have "dotted a b c d div 65536 = a * 256 + b" by (simp add: dotted_split)
  moreover have "dotted x y 0 0 div 65536 = x * 256 + y" by (simp add: dotted_split)
  moreover have "a * 256 + b = x * 256 + y \<longleftrightarrow> a = x \<and> b = y"
  proof
    assume e: "a * 256 + b = x * 256 + y"
    have "(a * 256 + b) div 256 = a" "(a * 256 + b) mod 256 = b" using assms by simp_all
    moreover have "(x * 256 + y) div 256 = x" "(x * 256 + y) mod 256 = y" using assms by simp_all
    ultimately show "a = x \<and> b = y" using e by metis
  qed simp
  ultimately show ?thesis by (simp add: in_block_def)
qed

lemma block12:
  assumes "b < 256" "c < 256" "d < 256"
  shows "in_block 32 (dotted a b c d) (dotted 172 16 0 0) 12
         \<longleftrightarrow> a = 172 \<and> 16 \<le> b \<and> b \<le> 31"
proof -
  define q where "q = b div 16"
  have q: "q < 16" using assms by (simp add: q_def)
  have r: "c * 256 + d < 65536" using assms by simp
  have "dotted a b c d div (16 * 65536) = (a * 256 + b) div 16"
    unfolding dotted_split by (rule div_scaled[OF r])
  also have "\<dots> = a * 16 + q" by (simp add: q_def)
  finally have "dotted a b c d div 1048576 = a * 16 + q" by simp
  moreover have "dotted 172 16 0 0 div 1048576 = 2753" by (simp add: dotted_def)
  moreover have "a * 16 + q = 2753 \<longleftrightarrow> a = 172 \<and> q = 1" using q by arith
  moreover have "q = 1 \<longleftrightarrow> 16 \<le> b \<and> b \<le> 31" unfolding q_def by arith
  ultimately show ?thesis by (simp add: in_block_def)
qed


lemma v4_checks:
  assumes "length v4 = 4"
  shows "in_block 32 (ip_value v4) (dotted x 0 0 0) 8 \<longleftrightarrow> unat (v4 ! 0) = x"
    and "y < 256 \<Longrightarrow> in_block 32 (ip_value v4) (dotted x y 0 0) 16
           \<longleftrightarrow> unat (v4 ! 0) = x \<and> unat (v4 ! 1) = y"
    and "in_block 32 (ip_value v4) (dotted 172 16 0 0) 12
           \<longleftrightarrow> v4 ! 0 = 172 \<and> v4 ! 1 \<ge> 16 \<and> v4 ! 1 \<le> 31"
proof -
  from len4[OF assms] obtain a b c d where v4: "v4 = [a, b, c, d]" by blast
  note lt = unat_byte_lt[of b] unat_byte_lt[of c] unat_byte_lt[of d]
  show "in_block 32 (ip_value v4) (dotted x 0 0 0) 8 \<longleftrightarrow> unat (v4 ! 0) = x"
    unfolding v4 ip_value4 by (simp add: block8[OF lt])
  show "in_block 32 (ip_value v4) (dotted x y 0 0) 16
           \<longleftrightarrow> unat (v4 ! 0) = x \<and> unat (v4 ! 1) = y" if "y < 256"
    unfolding v4 ip_value4 by (simp add: block16[OF lt that])
  show "in_block 32 (ip_value v4) (dotted 172 16 0 0) 12
           \<longleftrightarrow> v4 ! 0 = 172 \<and> v4 ! 1 \<ge> 16 \<and> v4 ! 1 \<le> 31"
    unfolding v4 ip_value4 by (simp add: block12[OF lt] byte_eq_numeral word_le_nat_alt)
qed

lemma To4_length: "To4 ip \<noteq> [] \<Longrightarrow> length (To4 ip) = 4"
  by (auto simp: To4_def split: if_splits)

lemma To4_first_zero: "To4 ip \<noteq> [] \<Longrightarrow> length ip = 16 \<Longrightarrow> ip ! 0 = 0"
  by (cases ip) (auto simp: To4_def split: if_splits)

lemma To4_not_loopback: "To4 ip \<noteq> [] \<Longrightarrow> \<not> Equal ip IPv6loopback"
  by (auto simp: To4_def Equal_def IPv6loopback_def v4InV6Prefix_def split: if_splits)

lemma To4_nil_Equal: "To4 ip = [] \<Longrightarrow> Equal ip IPv6loopback \<longleftrightarrow> ip = IPv6loopback"
  by (auto simp: To4_def Equal_def IPv6loopback_def split: if_splits)

section \<open>The classifier meets its specification\<close>

text \<open>
  C4. An address is local or internal for \<open>isLocalOrInternalIP\<close> exactly when it is in
  one of the blocks of the specification: the IPv4 loopback block \<open>127.0.0.0/8\<close> or the
  IPv6 loopback address, the IPv4 blocks \<open>10.0.0.0/8\<close>, \<open>172.16.0.0/12\<close>,
  \<open>192.168.0.0/16\<close> and \<open>169.254.0.0/16\<close>, the IPv6 blocks \<open>fc00::/7\<close> and
  \<open>fe80::/10\<close>. Every other address is \<open>Public\<close>. This holds for every byte slice,
  so for every result of \<open>net.ParseIP\<close>.
\<close>

theorem isLocalOrInternalIP_iff_classify: "isLocalOrInternalIP ip \<longleftrightarrow> classify ip \<noteq> Public"
proof (cases "To4 ip = []")
  case True
  show ?thesis
  proof (cases "length ip = 16")
    case l: True
    have ne: "ip \<noteq> []" using l by auto
    show ?thesis
      using ne by (simp add: isLocalOrInternalIP_def classify_def IsLoopback_def To4_nil_Equal[OF True]
          True l v6_ula[OF l] v6_ll[OF l] Let_def)
  next
    case l: False
    then have "ip \<noteq> IPv6loopback" by (auto simp: IPv6loopback_def)
    then show ?thesis
      using True l by (auto simp: isLocalOrInternalIP_def classify_def IsLoopback_def To4_nil_Equal Let_def)
  qed
next
  case False
  note v4 = v4_checks[OF To4_length[OF False]]
  have ne: "ip \<noteq> []" using False by (auto simp: To4_def)
  have nl: "ip \<noteq> IPv6loopback" using To4_not_loopback[OF False] by (auto simp: Equal_def)
  show ?thesis
  proof (cases "length ip = 16")
    case l: True
    show ?thesis
      using False ne nl To4_first_zero[OF False l] l
      by (simp add: isLocalOrInternalIP_def classify_def IsLoopback_def To4_not_loopback[OF False]
          v6_ula[OF l] v6_ll[OF l] v4 byte_eq_numeral Let_def)
  next
    case l: False
    show ?thesis
      using False ne nl l
      by (simp add: isLocalOrInternalIP_def classify_def IsLoopback_def To4_not_loopback[OF False]
           v4 byte_eq_numeral Let_def)
  qed
qed

theorem isLocalOrInternalIP_iff_classify_witness:
  "classify ip_10_0_0_5 = Private \<and> isLocalOrInternalIP ip_10_0_0_5 \<and>
   classify ip_203_0_113_1 = Public \<and> \<not> isLocalOrInternalIP ip_203_0_113_1"
proof -
  have 1: "classify ip_10_0_0_5 = Private"
    by (simp add: classify_def ip_10_0_0_5_def To4_def ip_value_def in_block_def dotted_def
        IPv6loopback_def)
  have 2: "classify ip_203_0_113_1 = Public"
    by (simp add: classify_def ip_203_0_113_1_def To4_def ip_value_def in_block_def dotted_def
        IPv6loopback_def fc00_def fe80_def)
  show ?thesis
    using isLocalOrInternalIP_iff_classify[of ip_10_0_0_5]
      isLocalOrInternalIP_iff_classify[of ip_203_0_113_1] 1 2 by simp
qed

section \<open>The filter's decisions\<close>

lemma allowed_iff: "allowed e c xs \<longleftrightarrow> (\<exists>a\<in>set xs. EqualFold e c a)"
  by (induction xs) auto

lemma blocked_iff: "blocked e c xs \<longleftrightarrow> (\<exists>b\<in>set xs. EqualFold e c b)"
  by (induction xs) auto

lemma allowed_empty_code: "allowed e [] xs \<longleftrightarrow> [] \<in> set xs"
  by (induction xs) auto

lemma blocked_empty_code: "blocked e [] xs \<longleftrightarrow> [] \<in> set xs"
  by (induction xs) auto

lemma not_local_nil: "\<not> isLocalOrInternalIP []"
  by (simp add: isLocalOrInternalIP_def)

text \<open>\<open>ServeHTTP\<close> in the words of \<open>chosenAddr\<close>, \<open>stripPort\<close> and \<open>clientIP\<close>.\<close>

lemma ServeHTTP_eq:
  "ServeHTTP e m r =
     [NetSplitHostPort (chosenAddr r), NetParseIP (stripPort e (chosenAddr r))] @
     (if clientIP e r \<noteq> [] then
        if isLocalOrInternalIP (clientIP e r) then [NextServeHTTP r]
        else ReaderCountry (clientIP e r) #
          (case reader m (clientIP e r) of
             Inr countryCode \<Rightarrow>
               if allowCountries m \<noteq> [] then
                 if \<not> allowed e countryCode (allowCountries m) then
                   [LoggerInfo ''Request blocked - country not in allow list''
                      countryCode (stripPort e (chosenAddr r)) (allowCountries m),
                    HttpError ''Access denied'' 403]
                 else [NextServeHTTP (annotate r countryCode)]
               else if blockCountries m \<noteq> [] then
                 if blocked e countryCode (blockCountries m) then
                   [LoggerInfo ''Request blocked - country in block list''
                      countryCode (stripPort e (chosenAddr r)) (blockCountries m),
                    HttpError ''Access denied'' 403]
                 else [NextServeHTTP (annotate r countryCode)]
               else [NextServeHTTP (annotate r countryCode)]
           | Inl err \<Rightarrow> [NextServeHTTP r])
      else [NextServeHTTP r])"
proof -
  have a: "(if Header_Get (Header r) ''X-Forwarded-For'' = [] then RemoteAddr r
            else Header_Get (Header r) ''X-Forwarded-For'') = chosenAddr r"
    by (simp add: chosenAddr_def)
  show ?thesis
    by (simp only: ServeHTTP_def Let_def a clientIP_def stripPort_def StatusForbidden_def)
qed

lemma ServeHTTP_local:
  "isLocalOrInternalIP (clientIP e r) \<Longrightarrow>
   ServeHTTP e m r =
     [NetSplitHostPort (chosenAddr r), NetParseIP (stripPort e (chosenAddr r)), NextServeHTTP r]"
  using not_local_nil by (auto simp: ServeHTTP_eq)

lemma ServeHTTP_unparsed:
  "clientIP e r = [] \<Longrightarrow>
   ServeHTTP e m r =
     [NetSplitHostPort (chosenAddr r), NetParseIP (stripPort e (chosenAddr r)), NextServeHTTP r]"
  by (simp add: ServeHTTP_eq)

lemma ServeHTTP_lookup_failed:
  "clientIP e r \<noteq> [] \<Longrightarrow> \<not> isLocalOrInternalIP (clientIP e r) \<Longrightarrow>
   reader m (clientIP e r) = Inl err \<Longrightarrow>
   ServeHTTP e m r =
     [NetSplitHostPort (chosenAddr r), NetParseIP (stripPort e (chosenAddr r)),
      ReaderCountry (clientIP e r), NextServeHTTP r]"
  by (simp add: ServeHTTP_eq)

lemma ServeHTTP_looked_up:
  "clientIP e r \<noteq> [] \<Longrightarrow> \<not> isLocalOrInternalIP (clientIP e r) \<Longrightarrow>
   reader m (clientIP e r) = Inr c \<Longrightarrow>
   ServeHTTP e m r =
     [NetSplitHostPort (chosenAddr r), NetParseIP (stripPort e (chosenAddr r)),
      ReaderCountry (clientIP e r)] @
     (if allowCountries m \<noteq> [] then
        if \<not> allowed e c (allowCountries m) then
          [LoggerInfo ''Request blocked - country not in allow list''
             c (stripPort e (chosenAddr r)) (allowCountries m),
           HttpError ''Access denied'' 403]
        else [NextServeHTTP (annotate r c)]
      else if blockCountries m \<noteq> [] then
        if blocked e c (blockCountries m) then
          [LoggerInfo ''Request blocked - country in block list''
             c (stripPort e (chosenAddr r)) (blockCountries m),
           HttpError ''Access denied'' 403]
        else [NextServeHTTP (annotate r c)]
      else [NextServeHTTP (annotate r c)])"
  by (simp add: ServeHTTP_eq)

text \<open>The example requests: one from a public address, one forwarded for a private one.\<close>

lemma example_public:
  "chosenAddr (example_request [] ''203.0.113.1:54321'') = ''203.0.113.1:54321''"
  "stripPort example_env ''203.0.113.1:54321'' = ''203.0.113.1''"
  "clientIP example_env (example_request [] ''203.0.113.1:54321'') = ip_203_0_113_1"
  "ip_203_0_113_1 \<noteq> []"
  "\<not> isLocalOrInternalIP ip_203_0_113_1"
  by (simp_all add: clientIP_def chosenAddr_def stripPort_def example_request_def example_env_def
      Header_Get_def ip_203_0_113_1_def isLocalOrInternalIP_def IsLoopback_def To4_def Equal_def
      IPv6loopback_def)

lemma example_forwarded:
  "chosenAddr (example_request ''10.0.0.5'' ''203.0.113.1:54321'') = ''10.0.0.5''"
  "stripPort example_env ''10.0.0.5'' = ''10.0.0.5''"
  "clientIP example_env (example_request ''10.0.0.5'' ''203.0.113.1:54321'') = ip_10_0_0_5"
  "isLocalOrInternalIP ip_10_0_0_5"
  by (simp_all add: clientIP_def chosenAddr_def stripPort_def example_request_def example_env_def
      Header_Get_def ip_10_0_0_5_def isLocalOrInternalIP_def IsLoopback_def To4_def Equal_def
      IPv6loopback_def)

lemma example_unparsed:
  "clientIP example_env (example_request ''unknown'' ''203.0.113.1:54321'') = []"
  by (simp add: clientIP_def chosenAddr_def stripPort_def example_request_def example_env_def
      Header_Get_def)

lemma example_folds:
  "\<not> EqualFold example_env ''GB'' ''US''"
  "EqualFold example_env ''cn'' ''CN''"
  by simp_all

text \<open>
  C1. For a request whose address parses, is not local or internal, and whose lookup
  returns the code \<open>c\<close>: with a non-empty allow list the request is rejected unless
  \<open>c\<close> matches a member of it, whatever the block list is (any other block list gives
  the same calls); with an empty allow list and a non-empty block list it is rejected if
  and only if \<open>c\<close> matches a member of the block list; with both lists empty it passes.
\<close>

theorem ServeHTTP_allow_block_policy:
  assumes "clientIP e r \<noteq> []" "\<not> isLocalOrInternalIP (clientIP e r)"
    "reader m (clientIP e r) = Inr c"
  shows "(allowCountries m \<noteq> [] \<longrightarrow>
            (rejected (ServeHTTP e m r) \<longleftrightarrow> \<not> (\<exists>a\<in>set (allowCountries m). EqualFold e c a)) \<and>
            (\<not> rejected (ServeHTTP e m r) \<longrightarrow> passed (ServeHTTP e m r) (annotate r c)) \<and>
            (\<forall>bl. ServeHTTP e (m\<lparr>blockCountries := bl\<rparr>) r = ServeHTTP e m r)) \<and>
         (allowCountries m = [] \<and> blockCountries m \<noteq> [] \<longrightarrow>
            (rejected (ServeHTTP e m r) \<longleftrightarrow> (\<exists>b\<in>set (blockCountries m). EqualFold e c b)) \<and>
            (\<not> rejected (ServeHTTP e m r) \<longrightarrow> passed (ServeHTTP e m r) (annotate r c))) \<and>
         (allowCountries m = [] \<and> blockCountries m = [] \<longrightarrow>
            passed (ServeHTTP e m r) (annotate r c))"
proof -
  note s = ServeHTTP_looked_up[OF assms(1,2)]
  have b: "ServeHTTP e (m\<lparr>blockCountries := bl\<rparr>) r = ServeHTTP e m r"
    if "allowCountries m \<noteq> []" for bl
    using that assms(3) by (simp add: s[of "m\<lparr>blockCountries := bl\<rparr>" c] s[of m c])
  show ?thesis
    using b by (simp add: s[OF assms(3)] passed_def rejected_def is_next_def is_response_def
        allowed_iff blocked_iff)
qed

theorem ServeHTTP_allow_block_policy_witness:
  "rejected (ServeHTTP example_env
      \<lparr>reader = answering ''GB'', allowCountries = [''US''], blockCountries = []\<rparr>
      (example_request [] ''203.0.113.1:54321'')) \<and>
   rejected (ServeHTTP example_env
      \<lparr>reader = answering ''cn'', allowCountries = [], blockCountries = [''CN'']\<rparr>
      (example_request [] ''203.0.113.1:54321'')) \<and>
   passed (ServeHTTP example_env
      \<lparr>reader = answering ''US'', allowCountries = [], blockCountries = []\<rparr>
      (example_request [] ''203.0.113.1:54321''))
     (annotate (example_request [] ''203.0.113.1:54321'') ''US'')"
proof -
  let ?r = "example_request [] ''203.0.113.1:54321''"
  have h: "clientIP example_env ?r \<noteq> []" "\<not> isLocalOrInternalIP (clientIP example_env ?r)"
    by (simp_all add: example_public)
  have 1: "reader \<lparr>reader = answering ''GB'', allowCountries = [''US''], blockCountries = []\<rparr>
             (clientIP example_env ?r) = Inr ''GB''"
    by (simp add: answering_def)
  have 2: "reader \<lparr>reader = answering ''cn'', allowCountries = [], blockCountries = [''CN'']\<rparr>
             (clientIP example_env ?r) = Inr ''cn''"
    by (simp add: answering_def)
  have 3: "reader \<lparr>reader = answering ''US'', allowCountries = [], blockCountries = []\<rparr>
             (clientIP example_env ?r) = Inr ''US''"
    by (simp add: answering_def)
  show ?thesis
    using ServeHTTP_allow_block_policy[OF h 1] ServeHTTP_allow_block_policy[OF h 2]
      ServeHTTP_allow_block_policy[OF h 3] example_folds
    by simp
qed

text \<open>
  C2. A request whose address parses to a local or internal address goes to the downstream
  handler as it came, whatever the middleware's lists and reader are: the calls are the
  two parsing calls and the downstream call, so there is no country lookup, no response
  written by the filter and no header set.
\<close>

theorem ServeHTTP_local_passes:
  assumes "isLocalOrInternalIP (clientIP e r)"
  shows "ServeHTTP e m r =
           [NetSplitHostPort (chosenAddr r), NetParseIP (stripPort e (chosenAddr r)),
            NextServeHTTP r] \<and>
         filter is_lookup (ServeHTTP e m r) = [] \<and>
         passed (ServeHTTP e m r) r \<and> \<not> rejected (ServeHTTP e m r)"
  using assms
  by (simp add: ServeHTTP_local is_lookup_def passed_def rejected_def is_next_def is_response_def)

theorem ServeHTTP_local_passes_witness:
  "isLocalOrInternalIP (clientIP example_env (example_request ''10.0.0.5'' ''203.0.113.1:54321'')) \<and>
   ServeHTTP example_env
     \<lparr>reader = answering ''GB'', allowCountries = [''US''], blockCountries = [''GB'']\<rparr>
     (example_request ''10.0.0.5'' ''203.0.113.1:54321'') =
   [NetSplitHostPort ''10.0.0.5'', NetParseIP ''10.0.0.5'',
    NextServeHTTP (example_request ''10.0.0.5'' ''203.0.113.1:54321'')]"
proof -
  have h: "isLocalOrInternalIP
             (clientIP example_env (example_request ''10.0.0.5'' ''203.0.113.1:54321''))"
    by (simp add: example_forwarded)
  show ?thesis
    using h ServeHTTP_local_passes[OF h,
        of "\<lparr>reader = answering ''GB'', allowCountries = [''US''], blockCountries = [''GB'']\<rparr>"]
    by (simp add: example_forwarded)
qed

text \<open>
  C3. When the address does not parse, or when it is not local or internal and the
  country lookup returns an error, the request is not rejected: it reaches the downstream
  handler as it came, with no header set and no response written by the filter.
\<close>

theorem ServeHTTP_fail_open:
  assumes "clientIP e r = [] \<or>
           (\<not> isLocalOrInternalIP (clientIP e r) \<and> reader m (clientIP e r) = Inl err)"
  shows "passed (ServeHTTP e m r) r \<and> \<not> rejected (ServeHTTP e m r)"
proof (cases "clientIP e r = []")
  case True
  show ?thesis
    by (simp add: ServeHTTP_unparsed[OF True] passed_def rejected_def is_next_def is_response_def)
next
  case False
  with assms have "\<not> isLocalOrInternalIP (clientIP e r)" "reader m (clientIP e r) = Inl err"
    by auto
  from ServeHTTP_lookup_failed[OF False this] show ?thesis
    by (simp add: passed_def rejected_def is_next_def is_response_def)
qed

theorem ServeHTTP_fail_open_witness:
  "passed (ServeHTTP example_env
      \<lparr>reader = failing, allowCountries = [''US''], blockCountries = []\<rparr>
      (example_request [] ''203.0.113.1:54321''))
     (example_request [] ''203.0.113.1:54321'') \<and>
   passed (ServeHTTP example_env
      \<lparr>reader = answering ''GB'', allowCountries = [''US''], blockCountries = []\<rparr>
      (example_request ''unknown'' ''203.0.113.1:54321''))
     (example_request ''unknown'' ''203.0.113.1:54321'')"
proof -
  let ?r = "example_request [] ''203.0.113.1:54321''"
  let ?m = "\<lparr>reader = failing, allowCountries = [''US''], blockCountries = []\<rparr>"
  have 1: "clientIP example_env ?r = [] \<or>
           (\<not> isLocalOrInternalIP (clientIP example_env ?r) \<and>
            reader ?m (clientIP example_env ?r) = Inl ''lookup failed'')"
    by (simp add: example_public failing_def)
  let ?u = "example_request ''unknown'' ''203.0.113.1:54321''"
  let ?n = "\<lparr>reader = answering ''GB'', allowCountries = [''US''], blockCountries = []\<rparr>"
  have 2: "clientIP example_env ?u = [] \<or>
           (\<not> isLocalOrInternalIP (clientIP example_env ?u) \<and>
            reader ?n (clientIP example_env ?u) = Inl ''lookup failed'')"
    by (simp add: example_unparsed)
  show ?thesis
    using ServeHTTP_fail_open[OF 1] ServeHTTP_fail_open[OF 2] by simp
qed

text \<open>
  The first example of the specification: a request from \<open>203.0.113.1\<close>, the
  allow list \<open>US\<close>, and a lookup that returns \<open>GB\<close>.
\<close>

lemma example_rejection:
  "ServeHTTP example_env
     \<lparr>reader = answering ''GB'', allowCountries = [''US''], blockCountries = []\<rparr>
     (example_request [] ''203.0.113.1:54321'') =
   [NetSplitHostPort ''203.0.113.1:54321'', NetParseIP ''203.0.113.1'',
    ReaderCountry ip_203_0_113_1,
    LoggerInfo ''Request blocked - country not in allow list'' ''GB'' ''203.0.113.1'' [''US''],
    HttpError ''Access denied'' 403]"
proof -
  let ?r = "example_request [] ''203.0.113.1:54321''"
  let ?m = "\<lparr>reader = answering ''GB'', allowCountries = [''US''], blockCountries = []\<rparr>"
  have h: "clientIP example_env ?r \<noteq> []" "\<not> isLocalOrInternalIP (clientIP example_env ?r)"
    "reader ?m (clientIP example_env ?r) = Inr ''GB''"
    by (simp_all add: example_public answering_def)
  show ?thesis
    by (simp add: ServeHTTP_looked_up[OF h] example_public)
qed

text \<open>
  C6, as the code has it. When the lookup succeeds with an empty code, a list matches
  exactly when the empty string is one of its members (so never when it has none), and
  the request, if it goes downstream, goes as it came. After a successful lookup a request
  that passes carries the header \<open>X-GeoIP-Country\<close> with the code if and only if
  the code is not empty.
\<close>

theorem ServeHTTP_empty_code:
  assumes "clientIP e r \<noteq> []" "\<not> isLocalOrInternalIP (clientIP e r)"
    "reader m (clientIP e r) = Inr c"
  shows "(c = [] \<longrightarrow>
            (allowed e c (allowCountries m) \<longleftrightarrow> [] \<in> set (allowCountries m)) \<and>
            (blocked e c (blockCountries m) \<longleftrightarrow> [] \<in> set (blockCountries m)) \<and>
            (\<forall>r'. NextServeHTTP r' \<in> set (ServeHTTP e m r) \<longrightarrow> r' = r)) \<and>
         (\<forall>r'. NextServeHTTP r' \<in> set (ServeHTTP e m r) \<longrightarrow>
            r' = (if c \<noteq> [] then r\<lparr>Header := Header_Set (Header r) ''X-GeoIP-Country'' c\<rparr>
                  else r))"
  by (simp add: ServeHTTP_looked_up[OF assms] allowed_empty_code blocked_empty_code annotate_def)

theorem ServeHTTP_empty_code_witness:
  "clientIP example_env (example_request [] ''203.0.113.1:54321'') \<noteq> [] \<and>
   \<not> isLocalOrInternalIP (clientIP example_env (example_request [] ''203.0.113.1:54321'')) \<and>
   \<not> allowed example_env [] [] \<and> \<not> blocked example_env [] [''CN''] \<and>
   passed (ServeHTTP example_env
      \<lparr>reader = answering [], allowCountries = [], blockCountries = [''CN'']\<rparr>
      (example_request [] ''203.0.113.1:54321''))
     (example_request [] ''203.0.113.1:54321'')"
proof -
  let ?r = "example_request [] ''203.0.113.1:54321''"
  let ?m = "\<lparr>reader = answering [], allowCountries = [], blockCountries = [''CN'']\<rparr>"
  have h: "clientIP example_env ?r \<noteq> []" "\<not> isLocalOrInternalIP (clientIP example_env ?r)"
    "reader ?m (clientIP example_env ?r) = Inr []"
    by (simp_all add: example_public answering_def)
  show ?thesis
    using h(1,2) ServeHTTP_empty_code[OF h]
    by (simp add: ServeHTTP_looked_up[OF h] passed_def is_next_def is_response_def annotate_def)
qed

theorem empty_code_matches_empty_member:
  "blocked example_env [] [[]] \<and>
   rejected (ServeHTTP example_env
      \<lparr>reader = answering [], allowCountries = [], blockCountries = [[]]\<rparr>
      (example_request [] ''203.0.113.1:54321''))"
proof -
  let ?r = "example_request [] ''203.0.113.1:54321''"
  let ?m = "\<lparr>reader = answering [], allowCountries = [], blockCountries = [[]]\<rparr>"
  have h: "clientIP example_env ?r \<noteq> []" "\<not> isLocalOrInternalIP (clientIP example_env ?r)"
    "reader ?m (clientIP example_env ?r) = Inr []"
    by (simp_all add: example_public answering_def)
  show ?thesis
    by (simp add: ServeHTTP_looked_up[OF h] rejected_def is_response_def is_next_def)
qed

text \<open>
  C7. Whatever the request, the only response the filter writes is the one of
  \<open>http.Error\<close> with the message \<open>Access denied\<close> and the status 403, and the filter
  either rejects the request so or passes one request downstream.
\<close>

theorem ServeHTTP_only_403:
  "(\<forall>msg st. HttpError msg st \<in> set (ServeHTTP e m r) \<longrightarrow> msg = ''Access denied'' \<and> st = 403) \<and>
   (rejected (ServeHTTP e m r) \<or> (\<exists>r'. passed (ServeHTTP e m r) r'))"
  by (auto simp: ServeHTTP_eq passed_def rejected_def is_next_def is_response_def
      split: sum.splits)

theorem ServeHTTP_only_403_witness:
  "HttpError ''Access denied'' 403 \<in> set (ServeHTTP example_env
      \<lparr>reader = answering ''GB'', allowCountries = [''US''], blockCountries = []\<rparr>
      (example_request [] ''203.0.113.1:54321'')) \<and>
   rejected (ServeHTTP example_env
      \<lparr>reader = answering ''GB'', allowCountries = [''US''], blockCountries = []\<rparr>
      (example_request [] ''203.0.113.1:54321''))"
  using ServeHTTP_only_403[of example_env
      "\<lparr>reader = answering ''GB'', allowCountries = [''US''], blockCountries = []\<rparr>"
      "example_request [] ''203.0.113.1:54321''"]
  by (simp add: example_rejection passed_def is_next_def is_response_def)

text \<open>
  C8. The first two calls of \<open>ServeHTTP\<close> split and parse the address text: the
  header \<open>X-Forwarded-For\<close> when it is present and not empty, the peer address
  otherwise, and of this text the host part when \<open>SplitHostPort\<close> finds a port. Nothing
  else is parsed, and a country lookup is for the address so parsed.
\<close>

theorem ServeHTTP_address_source:
  "\<exists>rest. ServeHTTP e m r =
      NetSplitHostPort (chosenAddr r) # NetParseIP (stripPort e (chosenAddr r)) # rest \<and>
      (\<forall>a. NetSplitHostPort a \<notin> set rest) \<and> (\<forall>h. NetParseIP h \<notin> set rest) \<and>
      (\<forall>ip. ReaderCountry ip \<in> set rest \<longrightarrow> ip = ParseIP e (stripPort e (chosenAddr r)))"
  by (auto simp: ServeHTTP_eq clientIP_def split: sum.splits)

theorem ServeHTTP_address_source_witness:
  "(\<exists>rest. ServeHTTP example_env
        \<lparr>reader = answering ''GB'', allowCountries = [''US''], blockCountries = []\<rparr>
        (example_request [] ''203.0.113.1:54321'') =
      NetSplitHostPort ''203.0.113.1:54321'' # NetParseIP ''203.0.113.1'' # rest \<and>
      ReaderCountry ip_203_0_113_1 \<in> set rest) \<and>
   (\<exists>rest. ServeHTTP example_env
        \<lparr>reader = answering ''GB'', allowCountries = [''US''], blockCountries = []\<rparr>
        (example_request ''10.0.0.5'' ''203.0.113.1:54321'') =
      NetSplitHostPort ''10.0.0.5'' # NetParseIP ''10.0.0.5'' # rest)"
  using ServeHTTP_address_source[of example_env
      "\<lparr>reader = answering ''GB'', allowCountries = [''US''], blockCountries = []\<rparr>"
      "example_request ''10.0.0.5'' ''203.0.113.1:54321''"]
  by (auto simp: example_rejection example_forwarded)

section \<open>The database path\<close>

lemma findLoop_first: "Abs e p = Inr a \<Longrightarrow> a \<noteq> [] \<Longrightarrow> findLoop e (p # ps) = a"
  by simp

lemma findLoop_empty: "findLoop e ps = [] \<Longrightarrow> p \<in> set ps \<Longrightarrow> Abs e p = Inr a \<Longrightarrow> a = []"
  by (induction ps) (auto split: sum.splits if_splits)

lemma example_resolves: "resolves_absolute example_env"
  by (simp add: resolves_absolute_def example_env_def)

lemma example_path: "FindGeoIP2Database example_env = ''/rails/GeoLite2-Country.mmdb''"
  by (simp add: FindGeoIP2Database_def possiblePaths_def example_env_def)

text \<open>
  C10. \<open>FindGeoIP2Database\<close> asks the environment for nothing but \<open>filepath.Abs\<close>.
  When \<open>Abs\<close> resolves the first candidate \<open>./GeoLite2-Country.mmdb\<close>, the result
  is that absolute path, in every environment that resolves the first candidate so,
  whatever it answers for the other candidates and whichever files it can open. The
  result is the empty string only if \<open>Abs\<close> fails on every candidate.
\<close>

theorem FindGeoIP2Database_first_candidate:
  assumes "resolves_absolute e"
  shows "(\<forall>a. Abs e ''./GeoLite2-Country.mmdb'' = Inr a \<longrightarrow>
            FindGeoIP2Database e = a \<and>
            (\<forall>e'. resolves_absolute e' \<and> Abs e' ''./GeoLite2-Country.mmdb'' = Inr a \<longrightarrow>
                  FindGeoIP2Database e' = a)) \<and>
         (FindGeoIP2Database e = [] \<longrightarrow> (\<forall>p\<in>set possiblePaths. \<exists>err. Abs e p = Inl err))"
proof -
  have first: "FindGeoIP2Database x = a"
    if "resolves_absolute x" "Abs x ''./GeoLite2-Country.mmdb'' = Inr a" for x a
  proof -
    from that have "a \<noteq> []" by (auto simp: resolves_absolute_def)
    with that(2) show ?thesis
      unfolding FindGeoIP2Database_def possiblePaths_def by (rule findLoop_first)
  qed
  have none: "\<exists>err. Abs e p = Inl err"
    if "FindGeoIP2Database e = []" "p \<in> set possiblePaths" for p
  proof (cases "Abs e p")
    case (Inl err)
    then show ?thesis by blast
  next
    case (Inr a)
    with that have "a = []" unfolding FindGeoIP2Database_def by (rule findLoop_empty)
    with Inr assms show ?thesis by (auto simp: resolves_absolute_def)
  qed
  from first[OF assms] first none show ?thesis by blast
qed

theorem FindGeoIP2Database_first_candidate_witness:
  "Abs example_env ''./GeoLite2-Country.mmdb'' = Inr ''/rails/GeoLite2-Country.mmdb'' \<and>
   FindGeoIP2Database example_env = ''/rails/GeoLite2-Country.mmdb'' \<and>
   FindGeoIP2Database (example_env\<lparr>Abs := \<lambda>p. Inl ''getwd: no such file or directory''\<rparr>) = [] \<and>
   isl (Abs (example_env\<lparr>Abs := \<lambda>p. Inl ''getwd: no such file or directory''\<rparr>)
          ''./fixtures/GeoLite2-Country.mmdb'')"
proof -
  let ?f = "example_env\<lparr>Abs := \<lambda>p. Inl ''getwd: no such file or directory''\<rparr>"
  have a: "Abs example_env ''./GeoLite2-Country.mmdb'' = Inr ''/rails/GeoLite2-Country.mmdb''"
    by (simp add: example_env_def)
  have f: "resolves_absolute ?f"
    by (simp add: resolves_absolute_def)
  have n: "FindGeoIP2Database ?f = []"
    by (simp add: FindGeoIP2Database_def possiblePaths_def)
  from FindGeoIP2Database_first_candidate[OF example_resolves]
    FindGeoIP2Database_first_candidate[OF f] a n
  show ?thesis by (auto simp: possiblePaths_def)
qed

section \<open>The chain\<close>

text \<open>
  C5, as the code has it. The layers of the handler \<open>NewHandler\<close> returns are, outermost
  first: logging when it is enabled; the country filter when it is enabled and the
  database opens; the body-size limit when \<open>maxRequestBody\<close> is positive; compression
  when it is enabled; then, always, the request-start instrumentation, the file-serving
  handler (built with its flag, enabled or not), caching and, innermost, the proxy. The
  four optional layers are left out when they are off.
\<close>

theorem NewHandler_layers:
  "layers (fst (NewHandler e options)) =
     (if logRequests options then [Logging] else []) @
     (if geoIP2Enabled options \<and> \<not> isl (Open e (FindGeoIP2Database e)) then [CountryFilter]
      else []) @
     (if maxRequestBody options > 0 then [BodyLimit] else []) @
     (if gzipCompressionEnabled options then [Compression] else []) @
     [RequestStart, Sendfile, Caching, Proxy]"
  by (simp add: NewHandler_def Let_def split: sum.splits)

theorem NewHandler_layers_witness:
  "layers (fst (NewHandler (example_env\<lparr>Open := \<lambda>p. Inr (answering ''US'')\<rparr>)
      (example_options\<lparr>logRequests := True, geoIP2Enabled := True, maxRequestBody := 1024,
         gzipCompressionEnabled := True\<rparr>))) =
   [Logging, CountryFilter, BodyLimit, Compression, RequestStart, Sendfile, Caching, Proxy] \<and>
   layers (fst (NewHandler example_env example_options)) =
   [RequestStart, Sendfile, Caching, Proxy]"
  using NewHandler_layers[of "example_env\<lparr>Open := \<lambda>p. Inr (answering ''US'')\<rparr>"
      "example_options\<lparr>logRequests := True, geoIP2Enabled := True, maxRequestBody := 1024,
         gzipCompressionEnabled := True\<rparr>"]
    NewHandler_layers[of example_env example_options]
  by (simp add: example_options_def)

theorem NewHandler_request_start_not_outermost:
  "layers (fst (NewHandler example_env (example_options\<lparr>gzipCompressionEnabled := True\<rparr>)))
     = [Compression, RequestStart, Sendfile, Caching, Proxy] \<and>
   layers (fst (NewHandler example_env (example_options\<lparr>gzipCompressionEnabled := True\<rparr>)))
     \<noteq> claimed_layers False False False True True"
  by (simp add: NewHandler_def Let_def example_options_def claimed_layers_def)

text \<open>
  C9. When the filter is enabled and the database does not open, \<open>NewHandler\<close> returns
  the handler it returns with the filter disabled, without a country-filter layer, and
  reports the failure once, as a warning with the path and the error. \<open>NewHandler\<close>
  has no error result: it returns a handler in every case.
\<close>

theorem NewHandler_database_unavailable:
  assumes "geoIP2Enabled options" "Open e (FindGeoIP2Database e) = Inl err"
  shows "fst (NewHandler e options) = fst (NewHandler e (options\<lparr>geoIP2Enabled := False\<rparr>)) \<and>
         CountryFilter \<notin> set (layers (fst (NewHandler e options))) \<and>
         snd (NewHandler e options) =
           [Warn ''Failed to open GeoIP2 database. NOT loading the GeoIP2 middleware for IP filtering.''
              (FindGeoIP2Database e) err]"
  using assms by (simp add: NewHandler_def Let_def)

theorem NewHandler_database_unavailable_witness:
  "geoIP2Enabled (example_options\<lparr>geoIP2Enabled := True\<rparr>) \<and>
   Open example_env (FindGeoIP2Database example_env) = Inl ''open: no such file or directory'' \<and>
   fst (NewHandler example_env (example_options\<lparr>geoIP2Enabled := True\<rparr>)) =
     fst (NewHandler example_env example_options) \<and>
   snd (NewHandler example_env (example_options\<lparr>geoIP2Enabled := True\<rparr>)) =
     [Warn ''Failed to open GeoIP2 database. NOT loading the GeoIP2 middleware for IP filtering.''
        ''/rails/GeoLite2-Country.mmdb'' ''open: no such file or directory'']"
proof -
  have g: "geoIP2Enabled (example_options\<lparr>geoIP2Enabled := True\<rparr>)" by simp
  have o: "Open example_env (FindGeoIP2Database example_env) = Inl ''open: no such file or directory''"
    by (simp add: example_env_def)
  have d: "example_options\<lparr>geoIP2Enabled := True, geoIP2Enabled := False\<rparr> = example_options"
    by (simp add: example_options_def)
  show ?thesis
    using g o NewHandler_database_unavailable[OF g o] by (simp add: d example_path)
qed

end
